theory Spec2Isabelle
  imports Complex_Main
begin

section \<open>The crop recommendation handler of app.py\<close>

text \<open>
  The program is one Flask view function, \<open>predict\<close>, over four process-wide artifacts
  loaded at start-up (\<open>model\<close>, \<open>sc\<close>, \<open>ms\<close>, \<open>label_encoder\<close>), each of which is
  \<open>None\<close> when its file could not be loaded. The embedding follows the function line by
  line. Strings are lists of the first 256 code points. The response is the \<open>result\<close>
  string handed to \<open>render_template\<close>; the template itself is not part of app.py.
  Lines written with \<open>print\<close> go to the server's standard output and are not part of
  the response; the model keeps the control flow around them and leaves the write out.
\<close>

subsection \<open>Python values and exceptions\<close>

text \<open>
  A Python float is a finite value, a negative zero, an infinity or a NaN. The finite
  values are taken as real numbers; every double but the negative zero is one, so a
  statement about all \<open>Finite x\<close> covers them.
\<close>

datatype pyfloat = Finite real | NegZero | PosInf | NegInf | NaN

text \<open>
  A label in the classifier's prediction: an integer, a float, a string, or an object
  that is none of these (\<open>None\<close>).
\<close>

datatype pyval = PyInt int | PyFloat pyfloat | PyStr string | PyNone

text \<open>
  What \<open>model.predict\<close> returns: an array of labels, one for each row it was given when
  the classifier keeps to that contract, or an object that cannot be indexed.
\<close>

datatype prediction = Labels "pyval list" | NotIndexable

text \<open>
  The exception classes that the builtins \<open>float()\<close>, \<open>int()\<close> and \<open>str()\<close> and the
  indexing \<open>prediction[0]\<close> raise.
\<close>

datatype pyexn = ValueError | TypeError | OverflowError | IndexError

text \<open>
  Two primitives of the interpreter are left as parameters: the correctly rounded value
  of a text that \<open>float()\<close> accepts, and the text that \<open>str()\<close> gives for a float.
\<close>

record pyrt =
  strtod :: "string \<Rightarrow> pyfloat"
  float_str :: "pyfloat \<Rightarrow> string"

subsection \<open>\<open>str.strip\<close>, \<open>float()\<close>, \<open>int()\<close> and \<open>str()\<close>\<close>

text \<open>
  \<open>str.strip()\<close> removes the characters of \<open>str.isspace\<close>: U+0009 to U+000D, U+001C to
  U+0020, U+0085 and U+00A0.
\<close>

definition py_isspace :: "char \<Rightarrow> bool" where
  "py_isspace c =
     (let n = (of_char c :: nat)
      in (9 \<le> n \<and> n \<le> 13) \<or> (28 \<le> n \<and> n \<le> 32) \<or> n = 133 \<or> n = 160)"

definition py_strip :: "string \<Rightarrow> string" where
  "py_strip s = rev (dropWhile py_isspace (rev (dropWhile py_isspace s)))"

text \<open>
  \<open>float()\<close> and \<open>int()\<close> skip less around a number: U+0009 to U+000D and the space,
  and U+0085 and U+00A0, which they first turn into a space. They do not skip U+001C
  to U+001F.
\<close>

definition num_isspace :: "char \<Rightarrow> bool" where
  "num_isspace c =
     (let n = (of_char c :: nat)
      in (9 \<le> n \<and> n \<le> 13) \<or> n = 32 \<or> n = 133 \<or> n = 160)"

definition num_strip :: "string \<Rightarrow> string" where
  "num_strip s = rev (dropWhile num_isspace (rev (dropWhile num_isspace s)))"

definition is_digit :: "char \<Rightarrow> bool" where
  "is_digit c = (c \<in> set ''0123456789'')"

definition py_lower :: "char \<Rightarrow> char" where
  "py_lower c =
     (let n = (of_char c :: nat)
      in if 65 \<le> n \<and> n \<le> 90 then char_of (n + 32) else c)"

text \<open>An underscore is allowed only between two digits.\<close>

fun underscores_ok :: "char option \<Rightarrow> string \<Rightarrow> bool" where
  "underscores_ok prev [] = True"
| "underscores_ok prev (c # cs) =
     (if c = CHR ''_''
      then (case prev of None \<Rightarrow> False | Some p \<Rightarrow> is_digit p) \<and>
           (case cs of [] \<Rightarrow> False | d # _ \<Rightarrow> is_digit d) \<and>
           underscores_ok (Some c) cs
      else underscores_ok (Some c) cs)"

definition drop_sign :: "string \<Rightarrow> string" where
  "drop_sign s =
     (case s of [] \<Rightarrow> [] | c # cs \<Rightarrow> if c = CHR ''+'' \<or> c = CHR ''-'' then cs else s)"

definition exponent_ok :: "string \<Rightarrow> bool" where
  "exponent_ok s =
     (case s of
        [] \<Rightarrow> True
      | c # cs \<Rightarrow>
          (c = CHR ''e'' \<or> c = CHR ''E'') \<and>
          (let ds = drop_sign cs in ds \<noteq> [] \<and> list_all is_digit ds))"

definition number_ok :: "string \<Rightarrow> bool" where
  "number_ok s =
     (let ip = takeWhile is_digit s;
          r1 = dropWhile is_digit s
      in case r1 of
           [] \<Rightarrow> ip \<noteq> []
         | c # r \<Rightarrow>
             if c = CHR ''.''
             then (ip \<noteq> [] \<or> takeWhile is_digit r \<noteq> []) \<and> exponent_ok (dropWhile is_digit r)
             else ip \<noteq> [] \<and> exponent_ok r1)"

text \<open>
  The texts \<open>float()\<close> accepts: surrounding white space, a sign, then \<open>inf\<close>,
  \<open>infinity\<close> or \<open>nan\<close> in any case, or a decimal number with an optional fraction and
  exponent, its digits grouped by single underscores.
\<close>

definition float_syntax :: "string \<Rightarrow> bool" where
  "float_syntax raw =
     (let t = drop_sign (num_strip raw)
      in map py_lower t \<in> set [''inf'', ''infinity'', ''nan''] \<or>
         (underscores_ok None t \<and> number_ok (filter (\<lambda>c. c \<noteq> CHR ''_'') t)))"

definition py_float :: "pyrt \<Rightarrow> string \<Rightarrow> pyexn + pyfloat" where
  "py_float rt raw = (if float_syntax raw then Inr (strtod rt raw) else Inl ValueError)"

text \<open>\<open>int()\<close> of a float drops the fraction: it rounds toward zero.\<close>

definition py_trunc :: "real \<Rightarrow> int" where
  "py_trunc x = (if 0 \<le> x then \<lfloor>x\<rfloor> else \<lceil>x\<rceil>)"

definition digit_val :: "char \<Rightarrow> nat" where
  "digit_val c = of_char c - 48"

definition dec_value :: "string \<Rightarrow> nat" where
  "dec_value ds = foldl (\<lambda>acc c. 10 * acc + digit_val c) 0 ds"

text \<open>
  The interpreter's default limit on conversions between \<open>int\<close> and \<open>str\<close> in base 10:
  more than 4300 digits raise \<open>ValueError\<close>, in either direction.
\<close>

definition max_str_digits :: nat where
  "max_str_digits = 4300"

text \<open>
  \<open>int()\<close> of a string in base 10: surrounding white space, a sign, then digits grouped
  by single underscores.
\<close>

definition int_literal :: "string \<Rightarrow> int option" where
  "int_literal s =
     (let t = num_strip s;
          body = drop_sign t;
          ds = filter (\<lambda>c. c \<noteq> CHR ''_'') body
      in if ds \<noteq> [] \<and> underscores_ok None body \<and> list_all is_digit ds \<and>
            length ds \<le> max_str_digits
         then Some (if hd t = CHR ''-'' then - int (dec_value ds) else int (dec_value ds))
         else None)"

fun py_int :: "pyval \<Rightarrow> pyexn + int" where
  "py_int (PyInt n) = Inr n"
| "py_int (PyFloat (Finite x)) = Inr (py_trunc x)"
| "py_int (PyFloat NegZero) = Inr 0"
| "py_int (PyFloat NaN) = Inl ValueError"
| "py_int (PyFloat PosInf) = Inl OverflowError"
| "py_int (PyFloat NegInf) = Inl OverflowError"
| "py_int (PyStr s) = (case int_literal s of None \<Rightarrow> Inl ValueError | Some n \<Rightarrow> Inr n)"
| "py_int PyNone = Inl TypeError"

fun dec_nat :: "nat \<Rightarrow> string" where
  "dec_nat n =
     (if n < 10 then [char_of (48 + n)]
      else dec_nat (n div 10) @ [char_of (48 + n mod 10)])"

declare dec_nat.simps [simp del]

definition dec_int :: "int \<Rightarrow> string" where
  "dec_int i = (if i < 0 then CHR ''-'' # dec_nat (nat (- i)) else dec_nat (nat i))"

text \<open>
  \<open>str()\<close> of a label, as the f-string of the last message takes it. An integer of more
  than 4300 digits has no text: the conversion raises \<open>ValueError\<close>.
\<close>

fun py_str :: "pyrt \<Rightarrow> pyval \<Rightarrow> pyexn + string" where
  "py_str rt (PyInt n) =
     (if 10 ^ max_str_digits \<le> \<bar>n\<bar> then Inl ValueError else Inr (dec_int n))"
| "py_str rt (PyFloat x) = Inr (float_str rt x)"
| "py_str rt (PyStr s) = Inr s"
| "py_str rt PyNone = Inr ''None''"

text \<open>\<open>prediction[0]\<close>: the first label, or the exception of the indexing.\<close>

fun first_label :: "prediction \<Rightarrow> pyexn + pyval" where
  "first_label (Labels []) = Inl IndexError"
| "first_label (Labels (pred # rest)) = Inr pred"
| "first_label NotIndexable = Inl TypeError"

subsection \<open>The artifacts and the request\<close>

text \<open>
  A loaded scaler maps the one-row feature array to a transformed row or raises; a
  loaded classifier maps the row to a prediction or raises; a loaded label encoder maps
  an integer code to a name or raises. \<open>Inl e\<close> is an exception (of a subclass of
  \<open>Exception\<close>) whose text \<open>str(e)\<close> is \<open>e\<close>.
\<close>

record artifacts =
  model :: "(pyfloat list \<Rightarrow> string + prediction) option"
  sc :: "(pyfloat list \<Rightarrow> string + pyfloat list) option"
  ms :: "(pyfloat list \<Rightarrow> string + pyfloat list) option"
  label_encoder :: "(int \<Rightarrow> string + string) option"

text \<open>\<open>request.form.get(field)\<close>: the submitted text of a field, \<open>None\<close> when missing.\<close>

type_synonym form = "string \<Rightarrow> string option"

text \<open>
  What the view function does in the end: it returns the page rendered with a result
  string, or an exception leaves it uncaught.
\<close>

datatype response = Rendered string | Uncaught pyexn

subsection \<open>The handler\<close>

definition config_error :: string where
  "config_error =
     ''Server configuration error: model or scaler not loaded. '' @
     ''Ensure model.pkl, standscaler.pkl and minmaxscaler.pkl exist in the app folder.''"

definition fields :: "string list" where
  "fields =
     [''Nitrogen'', ''Phosporus'', ''Potassium'', ''Temperature'', ''Humidity'', ''Ph'',
      ''Rainfall'']"

definition missing_msg :: "string \<Rightarrow> string" where
  "missing_msg field = ''Please provide a value for '' @ field @ ''.''"

definition invalid_msg :: "string \<Rightarrow> string \<Rightarrow> string" where
  "invalid_msg field raw =
     ''Invalid numeric value for '' @ field @ '': '' @ [CHR 0x27] @ raw @ [CHR 0x27]"

text \<open>
  The loop over the fields. \<open>Inl r\<close> is a \<open>return\<close> (or an exception that
  \<open>except ValueError\<close> does not catch) inside the loop; \<open>Inr values\<close> is the list
  after the last \<open>append\<close>.
\<close>

fun read_fields :: "pyrt \<Rightarrow> form \<Rightarrow> string list \<Rightarrow> pyfloat list \<Rightarrow> response + pyfloat list" where
  "read_fields rt form [] values = Inr values"
| "read_fields rt form (field # rest) values =
     (case form field of
        None \<Rightarrow> Inl (Rendered (missing_msg field))
      | Some raw \<Rightarrow>
          if py_strip raw = ''''
          then Inl (Rendered (missing_msg field))
          else (case py_float rt raw of
                  Inl e \<Rightarrow>
                    if e = ValueError then Inl (Rendered (invalid_msg field raw))
                    else Inl (Uncaught e)
                | Inr val \<Rightarrow> read_fields rt form rest (values @ [val])))"

text \<open>Scaling: MinMax first, then Standard; one \<open>try\<close> around both.\<close>

definition scale_features ::
  "(pyfloat list \<Rightarrow> string + pyfloat list) \<Rightarrow> (pyfloat list \<Rightarrow> string + pyfloat list) \<Rightarrow>
   pyfloat list \<Rightarrow> string + pyfloat list" where
  "scale_features ms_t sc_t single_pred =
     (case ms_t single_pred of
        Inl e \<Rightarrow> Inl e
      | Inr scaled_features \<Rightarrow> sc_t scaled_features)"

definition crop_dict :: "int \<Rightarrow> string option" where
  "crop_dict =
     map_of
       [(1, ''Rice''), (2, ''Maize''), (3, ''Jute''), (4, ''Cotton''), (5, ''Coconut''),
        (6, ''Papaya''), (7, ''Orange''), (8, ''Apple''), (9, ''Muskmelon''),
        (10, ''Watermelon''), (11, ''Grapes''), (12, ''Mango''), (13, ''Banana''),
        (14, ''Pomegranate''), (15, ''Lentil''), (16, ''Blackgram''), (17, ''Mungbean''),
        (18, ''Mothbeans''), (19, ''Pigeonpeas''), (20, ''Kidneybeans''), (21, ''Chickpea''),
        (22, ''Coffee'')]"

text \<open>
  The three steps that assign \<open>crop_name\<close>. Step 1 runs when a label encoder is loaded;
  steps 2 and 3 run only while \<open>crop_name is None\<close>.
\<close>

definition encoder_step :: "(int \<Rightarrow> string + string) option \<Rightarrow> pyval \<Rightarrow> string option" where
  "encoder_step le pred =
     (case le of
        None \<Rightarrow> None
      | Some enc \<Rightarrow>
          (case py_int pred of
             Inl e \<Rightarrow> None
           | Inr code \<Rightarrow> (case enc code of Inl e \<Rightarrow> None | Inr name \<Rightarrow> Some name)))"

definition string_step :: "string option \<Rightarrow> pyval \<Rightarrow> string option" where
  "string_step crop_name pred =
     (if crop_name = None
      then (case pred of PyStr s \<Rightarrow> Some s | _ \<Rightarrow> crop_name)
      else crop_name)"

definition dict_step :: "string option \<Rightarrow> pyval \<Rightarrow> string option" where
  "dict_step crop_name pred =
     (if crop_name = None
      then (case py_int pred of Inl e \<Rightarrow> None | Inr code \<Rightarrow> crop_dict code)
      else crop_name)"

definition resolve_crop_name :: "(int \<Rightarrow> string + string) option \<Rightarrow> pyval \<Rightarrow> string option" where
  "resolve_crop_name le pred = dict_step (string_step (encoder_step le pred) pred) pred"

text \<open>
  The \<open>else\<close> branch of the last \<open>if\<close>: the f-string takes \<open>str(pred)\<close>, outside any
  \<open>try\<close>.
\<close>

definition unresolved_result :: "pyrt \<Rightarrow> pyval \<Rightarrow> response" where
  "unresolved_result rt pred =
     (case py_str rt pred of
        Inl e \<Rightarrow> Uncaught e
      | Inr text \<Rightarrow>
          Rendered (''Sorry, could not determine the best crop. Model output: '' @ text))"

text \<open>\<open>if crop_name:\<close> holds for a name that is neither \<open>None\<close> nor empty.\<close>

definition format_result :: "pyrt \<Rightarrow> string option \<Rightarrow> pyval \<Rightarrow> response" where
  "format_result rt crop_name pred =
     (case crop_name of
        None \<Rightarrow> unresolved_result rt pred
      | Some name \<Rightarrow>
          if name = ''''
          then unresolved_result rt pred
          else Rendered (name @ '' is the best crop to be cultivated right there.''))"

text \<open>
  The view function. \<open>pred = prediction[0]\<close> stands after the \<open>try\<close> around
  \<open>model.predict\<close>, so its exception is not caught.
\<close>

definition predict :: "pyrt \<Rightarrow> artifacts \<Rightarrow> form \<Rightarrow> response" where
  "predict rt a form =
     (if model a = None \<or> sc a = None \<or> ms a = None
      then Rendered config_error
      else
        (case read_fields rt form fields [] of
           Inl r \<Rightarrow> r
         | Inr values \<Rightarrow>
             (case scale_features (the (ms a)) (the (sc a)) values of
                Inl e \<Rightarrow> Rendered (''Error while scaling features: '' @ e)
              | Inr final_features \<Rightarrow>
                  (case the (model a) final_features of
                     Inl e \<Rightarrow> Rendered (''Error during model prediction: '' @ e)
                   | Inr prediction \<Rightarrow>
                       (case first_label prediction of
                          Inl e \<Rightarrow> Uncaught e
                        | Inr pred \<Rightarrow>
                            format_result rt (resolve_crop_name (label_encoder a) pred)
                              pred)))))"

subsection \<open>Notions used to state the properties\<close>

text \<open>A field is blank when it is missing or its text is empty after \<open>strip()\<close>.\<close>

definition blank :: "form \<Rightarrow> string \<Rightarrow> bool" where
  "blank form field = (case form field of None \<Rightarrow> True | Some raw \<Rightarrow> py_strip raw = '''')"

text \<open>A field is numeric when it is present, not blank, and \<open>float()\<close> accepts its text.\<close>

definition numeric :: "form \<Rightarrow> string \<Rightarrow> bool" where
  "numeric form field =
     (case form field of None \<Rightarrow> False | Some raw \<Rightarrow> py_strip raw \<noteq> '''' \<and> float_syntax raw)"

text \<open>The list \<open>values\<close> after the loop, when all seven fields are numeric.\<close>

definition feature_values :: "pyrt \<Rightarrow> form \<Rightarrow> pyfloat list" where
  "feature_values rt form = map (\<lambda>field. strtod rt (the (form field))) fields"

text \<open>
  The handler reaches the label resolution with the label \<open>pred\<close>: the three mandatory
  artifacts are loaded, all seven fields are numeric, both scalers transform the row,
  the classifier returns a prediction for the transformed row, and \<open>prediction[0]\<close> is
  \<open>pred\<close>.
\<close>

definition classified :: "pyrt \<Rightarrow> artifacts \<Rightarrow> form \<Rightarrow> pyval \<Rightarrow> bool" where
  "classified rt a form pred =
     (model a \<noteq> None \<and> sc a \<noteq> None \<and> ms a \<noteq> None \<and>
      list_all (numeric form) fields \<and>
      (case the (ms a) (feature_values rt form) of
         Inl e \<Rightarrow> False
       | Inr scaled_features \<Rightarrow>
           (case the (sc a) scaled_features of
              Inl e \<Rightarrow> False
            | Inr final_features \<Rightarrow>
                (case the (model a) final_features of
                   Inl e \<Rightarrow> False
                 | Inr prediction \<Rightarrow> first_label prediction = Inr pred))))"

text \<open>
  Label resolution as the specification words it: an ordered chain of strategies, each
  tried only when the ones before it gave no name; the first success wins.
\<close>

fun first_success :: "('a \<Rightarrow> 'b option) list \<Rightarrow> 'a \<Rightarrow> 'b option" where
  "first_success [] x = None"
| "first_success (s # ss) x = (case s x of None \<Rightarrow> first_success ss x | Some y \<Rightarrow> Some y)"

definition resolver_tier :: "(int \<Rightarrow> string + string) option \<Rightarrow> pyval \<Rightarrow> string option" where
  "resolver_tier le pred =
     (case le of
        None \<Rightarrow> None
      | Some enc \<Rightarrow>
          (case py_int pred of
             Inl e \<Rightarrow> None
           | Inr code \<Rightarrow> (case enc code of Inl e \<Rightarrow> None | Inr name \<Rightarrow> Some name)))"

definition textual_tier :: "pyval \<Rightarrow> string option" where
  "textual_tier pred = (case pred of PyStr s \<Rightarrow> Some s | _ \<Rightarrow> None)"

definition table_tier :: "pyval \<Rightarrow> string option" where
  "table_tier pred = (case py_int pred of Inl e \<Rightarrow> None | Inr code \<Rightarrow> crop_dict code)"

definition tiered_resolution :: "(int \<Rightarrow> string + string) option \<Rightarrow> pyval \<Rightarrow> string option" where
  "tiered_resolution le = first_success [resolver_tier le, textual_tier, table_tier]"

subsection \<open>Example runtime, artifacts and submissions\<close>

text \<open>
  A runtime that agrees with Python on the texts and values the examples use: the seven
  texts of \<open>good_form\<close> denote doubles exactly, and \<open>float()\<close> of \<open>nan\<close> is a NaN.
\<close>

definition demo_rt :: pyrt where
  "demo_rt =
     \<lparr>strtod = (\<lambda>raw.
         case map_of [(''90'', 90), (''42'', 42), (''43'', 43), (''20.5'', 41 / 2),
                      (''82'', 82), (''6.5'', 13 / 2), (''202.5'', 405 / 2)] raw of
           None \<Rightarrow> NaN
         | Some x \<Rightarrow> Finite x),
      float_str = (\<lambda>x.
         case x of
           Finite r \<Rightarrow> dec_int \<lfloor>r\<rfloor> @ ''.0''
         | NegZero \<Rightarrow> ''-0.0''
         | PosInf \<Rightarrow> ''inf''
         | NegInf \<Rightarrow> ''-inf''
         | NaN \<Rightarrow> ''nan'')\<rparr>"

text \<open>
  Scalers that leave the row as it is, and a classifier that answers the one row with
  the one label \<open>label\<close>.
\<close>

definition demo_artifacts :: "pyval \<Rightarrow> (int \<Rightarrow> string + string) option \<Rightarrow> artifacts" where
  "demo_artifacts label le =
     \<lparr>model = Some (\<lambda>row. Inr (Labels [label])), sc = Some Inr, ms = Some Inr,
      label_encoder = le\<rparr>"

definition good_form :: form where
  "good_form =
     map_of [(''Nitrogen'', ''90''), (''Phosporus'', ''42''), (''Potassium'', ''43''),
             (''Temperature'', ''20.5''), (''Humidity'', ''82''), (''Ph'', ''6.5''),
             (''Rainfall'', ''202.5'')]"

text \<open>A label encoder over the three classes \<open>apple\<close>, \<open>banana\<close>, \<open>rice\<close>.\<close>

definition demo_encoder :: "int \<Rightarrow> string + string" where
  "demo_encoder code =
     (case map_of [(0, ''apple''), (1, ''banana''), (2, ''rice'')] code of
        None \<Rightarrow> Inl ''y contains previously unseen labels''
      | Some name \<Rightarrow> Inr name)"

section \<open>Properties\<close>

subsection \<open>Auxiliary facts\<close>

lemma py_float_Inl: "py_float rt raw = Inl e \<Longrightarrow> e = ValueError"
  by (simp add: py_float_def split: if_splits)

lemma read_fields_numeric:
  "list_all (numeric form) fs \<Longrightarrow>
   read_fields rt form fs vs = Inr (vs @ map (\<lambda>field. strtod rt (the (form field))) fs)"
  by (induction fs arbitrary: vs)
     (auto simp: numeric_def py_float_def split: option.splits)

lemma read_fields_first_blank:
  "list_all (numeric form) pre \<Longrightarrow> blank form field \<Longrightarrow>
   read_fields rt form (pre @ field # post) vs = Inl (Rendered (missing_msg field))"
  by (induction pre arbitrary: vs)
     (auto simp: numeric_def blank_def py_float_def split: option.splits)

lemma read_fields_first_invalid:
  "list_all (numeric form) pre \<Longrightarrow> form field = Some raw \<Longrightarrow> py_strip raw \<noteq> '''' \<Longrightarrow>
   \<not> float_syntax raw \<Longrightarrow>
   read_fields rt form (pre @ field # post) vs = Inl (Rendered (invalid_msg field raw))"
  by (induction pre arbitrary: vs)
     (auto simp: numeric_def py_float_def split: option.splits)

lemma read_fields_cong:
  "\<forall>f\<in>set fs. form f = form' f \<Longrightarrow> read_fields rt form fs vs = read_fields rt form' fs vs"
  by (induction fs arbitrary: vs) (auto split: option.splits sum.splits)

lemma read_fields_Inl:
  "read_fields rt form fs vs = Inl r \<Longrightarrow>
   (\<exists>f\<in>set fs. blank form f \<and> r = Rendered (missing_msg f)) \<or>
   (\<exists>f\<in>set fs. \<exists>raw. form f = Some raw \<and> py_strip raw \<noteq> '''' \<and> \<not> float_syntax raw \<and>
      r = Rendered (invalid_msg f raw))"
proof (induction fs arbitrary: vs)
  case Nil
  then show ?case by simp
next
  case (Cons f fs)
  show ?case
  proof (cases "form f")
    case None
    with Cons.prems show ?thesis by (auto simp: blank_def)
  next
    case (Some raw)
    show ?thesis
    proof (cases "py_strip raw = ''''")
      case True
      with Some Cons.prems show ?thesis by (auto simp: blank_def)
    next
      case False
      show ?thesis
      proof (cases "float_syntax raw")
        case True
        with Some False Cons.prems
        have "read_fields rt form fs (vs @ [strtod rt raw]) = Inl r"
          by (simp add: py_float_def)
        from Cons.IH [OF this] show ?thesis by auto
      next
        case nf: False
        with Some False Cons.prems show ?thesis by (auto simp: py_float_def)
      qed
    qed
  qed
qed

lemma crop_dict_nonempty: "crop_dict k = Some name \<Longrightarrow> name \<noteq> ''''"
  by (auto simp: crop_dict_def split: if_splits)

lemma crop_dict_above: "22 < k \<Longrightarrow> crop_dict k = None"
  by (simp add: crop_dict_def)

lemma predict_classified:
  "classified rt a form pred \<Longrightarrow>
   predict rt a form = format_result rt (resolve_crop_name (label_encoder a) pred) pred"
  by (auto simp: classified_def predict_def feature_values_def read_fields_numeric
        scale_features_def split: sum.splits)

lemma predict_loaded:
  "model a \<noteq> None \<Longrightarrow> sc a \<noteq> None \<Longrightarrow> ms a \<noteq> None \<Longrightarrow>
   read_fields rt form fields [] = Inl r \<Longrightarrow> predict rt a form = r"
  by (auto simp: predict_def)

lemma resolve_tiered: "resolve_crop_name le pred = tiered_resolution le pred"
  by (auto simp: resolve_crop_name_def tiered_resolution_def dict_step_def string_step_def
        encoder_step_def resolver_tier_def textual_tier_def table_tier_def
        split: option.splits sum.splits pyval.splits)

lemma resolve_without_encoder:
  "encoder_step le pred = None \<Longrightarrow> resolve_crop_name le pred = resolve_crop_name None pred"
  by (simp add: resolve_crop_name_def encoder_step_def)

lemma resolve_empty_string: "resolve_crop_name le (PyStr '''') = Some ''''"
  by (simp add: resolve_crop_name_def encoder_step_def string_step_def dict_step_def
        int_literal_def num_strip_def drop_sign_def split: option.splits)

lemma py_trunc_of_int: "py_trunc (real_of_int k) = k"
  by (simp add: py_trunc_def)

lemma py_trunc_toward_zero:
  "\<bar>real_of_int (py_trunc x)\<bar> \<le> \<bar>x\<bar> \<and> \<bar>x - real_of_int (py_trunc x)\<bar> < 1"
  by (simp add: py_trunc_def) linarith

lemma resolve_float:
  "resolve_crop_name le (PyFloat (Finite x)) = resolve_crop_name le (PyInt (py_trunc x))"
  by (cases le)
     (simp_all add: resolve_crop_name_def encoder_step_def string_step_def dict_step_def)

lemma format_result_named:
  "name \<noteq> '''' \<Longrightarrow>
   format_result rt (Some name) pred =
   Rendered (name @ '' is the best crop to be cultivated right there.'')"
  by (simp add: format_result_def)

lemma format_result_unnamed:
  "crop_name = None \<or> crop_name = Some '''' \<Longrightarrow>
   format_result rt crop_name pred = unresolved_result rt pred"
  by (auto simp: format_result_def)

lemma unresolved_result_text:
  "py_str rt pred = Inr text \<Longrightarrow>
   unresolved_result rt pred =
   Rendered (''Sorry, could not determine the best crop. Model output: '' @ text)"
  by (simp add: unresolved_result_def)

lemma table_below_limit: "(22::int) < 10 ^ max_str_digits"
proof -
  have "(10::int) ^ 2 \<le> 10 ^ max_str_digits"
    by (rule power_increasing) (simp_all add: max_str_digits_def)
  then show ?thesis by simp
qed

lemma py_str_small: "\<bar>n\<bar> < 100 \<Longrightarrow> py_str rt (PyInt n) = Inr (dec_int n)"
proof -
  assume "\<bar>n\<bar> < 100"
  moreover have "(10::int) ^ 2 \<le> 10 ^ max_str_digits"
    by (rule power_increasing) (simp_all add: max_str_digits_def)
  ultimately have "\<not> 10 ^ max_str_digits \<le> \<bar>n\<bar>"
    by simp
  then show ?thesis by simp
qed

lemma py_str_limit: "py_str rt (PyInt (10 ^ max_str_digits)) = Inl ValueError"
  by simp

lemma dec_nat_23: "dec_nat 23 = ''23''"
  by code_simp

lemma good_form_numeric:
  "numeric good_form ''Nitrogen''" "numeric good_form ''Phosporus''"
  "numeric good_form ''Potassium''" "numeric good_form ''Temperature''"
  "numeric good_form ''Humidity''" "numeric good_form ''Ph''" "numeric good_form ''Rainfall''"
  by (simp_all add: numeric_def good_form_def
        py_strip_def py_isspace_def num_strip_def num_isspace_def float_syntax_def
        drop_sign_def number_ok_def is_digit_def py_lower_def exponent_ok_def)

lemma numeric_update: "g \<noteq> f \<Longrightarrow> numeric (form(f \<mapsto> v)) g = numeric form g"
  by (simp add: numeric_def)

lemma good_form_classified:
  "classified demo_rt (demo_artifacts label le) good_form label"
  by (simp add: classified_def demo_artifacts_def fields_def good_form_numeric)

lemma demo_loaded:
  "model (demo_artifacts label le) \<noteq> None"
  "sc (demo_artifacts label le) \<noteq> None"
  "ms (demo_artifacts label le) \<noteq> None"
  by (simp_all add: demo_artifacts_def)

lemma abc_not_float: "py_strip ''abc'' \<noteq> ''''" "\<not> float_syntax ''abc''"
  by (simp_all add: float_syntax_def py_strip_def py_isspace_def num_strip_def num_isspace_def
        drop_sign_def number_ok_def is_digit_def py_lower_def)

lemma py_str_23: "py_str rt (PyInt 23) = Inr ''23''"
proof -
  have "\<bar>23::int\<bar> < 100"
    by simp
  from py_str_small [OF this, of rt] show ?thesis
    by (simp add: dec_int_def dec_nat_23 del: py_str.simps)
qed

lemma py_str_3: "py_str rt (PyInt 3) = Inr ''3''"
proof -
  have "\<bar>3::int\<bar> < 100"
    by simp
  moreover have "dec_nat 3 = ''3''"
    by code_simp
  ultimately show ?thesis
    using py_str_small [of 3 rt] by (simp add: dec_int_def del: py_str.simps)
qed

subsection \<open>Claims\<close>

text \<open>
  C1. When all seven fields are numeric, the classifier and both scalers are loaded and
  succeed, no label encoder is loaded, and the label equals a key \<open>k\<close> of the static table
  (as the integer \<open>k\<close> or the float of the same value), the result is exactly the table's
  name for \<open>k\<close> followed by \<open>is the best crop to be cultivated right there.\<close>; for the
  label 1 it is \<open>Rice is the best crop to be cultivated right there.\<close>
\<close>

theorem table_entry_success:
  assumes "classified rt a form pred"
    and "label_encoder a = None"
    and "pred = PyInt k \<or> pred = PyFloat (Finite (real_of_int k))"
    and "crop_dict k = Some name"
  shows "predict rt a form = Rendered (name @ '' is the best crop to be cultivated right there.'')"
proof -
  from assms(3) have "py_int pred = Inr k" and "\<forall>s. pred \<noteq> PyStr s"
    by (auto simp: py_trunc_of_int)
  then have "resolve_crop_name None pred = Some name"
    using assms(4)
    by (cases pred) (simp_all add: resolve_crop_name_def encoder_step_def string_step_def dict_step_def)
  moreover have "name \<noteq> ''''"
    using assms(4) by (rule crop_dict_nonempty)
  ultimately show ?thesis
    using predict_classified [OF assms(1)] assms(2) by (simp add: format_result_named)
qed

theorem table_entry_success_witness:
  "classified demo_rt (demo_artifacts (PyInt 1) None) good_form (PyInt 1) \<and>
   crop_dict 1 = Some ''Rice'' \<and>
   predict demo_rt (demo_artifacts (PyInt 1) None) good_form =
     Rendered ''Rice is the best crop to be cultivated right there.''"
proof -
  have c: "classified demo_rt (demo_artifacts (PyInt 1) None) good_form (PyInt 1)"
    by (rule good_form_classified)
  have e: "label_encoder (demo_artifacts (PyInt 1) None) = None"
    by (simp add: demo_artifacts_def)
  have p: "PyInt 1 = PyInt 1 \<or> PyInt 1 = PyFloat (Finite (real_of_int 1))"
    by simp
  have d: "crop_dict 1 = Some ''Rice''"
    by (simp add: crop_dict_def)
  from table_entry_success [OF c e p d] c d show ?thesis by simp
qed

text \<open>
  C2. Label resolution is the ordered chain of the specification: the label encoder
  (when loaded), then the label itself when it is a string, then the static table; the
  first strategy that yields a name wins, and the handler formats its answer. A name
  from the loaded encoder is used whatever the table holds for the same code. When the
  encoder step fails (the label has no integer value, or the encoder raises) the name
  is that of the other two steps, and the response is that of the same request with no
  encoder loaded: the failure does not fail the request.
\<close>

theorem label_resolution_tiers:
  "resolve_crop_name le pred = tiered_resolution le pred \<and>
   (\<forall>(enc :: int \<Rightarrow> string + string) code name.
      le = Some enc \<and> py_int pred = Inr code \<and> enc code = Inr name \<longrightarrow>
      resolve_crop_name le pred = Some name) \<and>
   (\<forall>(enc :: int \<Rightarrow> string + string) e. py_int pred = Inl e \<longrightarrow>
      resolve_crop_name (Some enc) pred = resolve_crop_name None pred) \<and>
   (\<forall>(enc :: int \<Rightarrow> string + string) code e. py_int pred = Inr code \<and> enc code = Inl e \<longrightarrow>
      resolve_crop_name (Some enc) pred = resolve_crop_name None pred) \<and>
   (classified rt a form pred \<longrightarrow>
      predict rt a form = format_result rt (tiered_resolution (label_encoder a) pred) pred) \<and>
   (\<forall>(enc :: int \<Rightarrow> string + string).
      classified rt a form pred \<and>
      ((\<exists>e. py_int pred = Inl e) \<or> (\<exists>code e. py_int pred = Inr code \<and> enc code = Inl e)) \<longrightarrow>
      predict rt (a\<lparr>label_encoder := Some enc\<rparr>) form =
      predict rt (a\<lparr>label_encoder := None\<rparr>) form)"
proof (intro conjI allI impI)
  show "resolve_crop_name le pred = tiered_resolution le pred"
    by (rule resolve_tiered)
next
  fix enc :: "int \<Rightarrow> string + string" and code name
  assume "le = Some enc \<and> py_int pred = Inr code \<and> enc code = Inr name"
  then show "resolve_crop_name le pred = Some name"
    by (simp add: resolve_crop_name_def encoder_step_def string_step_def dict_step_def)
next
  fix enc :: "int \<Rightarrow> string + string" and e
  assume "py_int pred = Inl e"
  then show "resolve_crop_name (Some enc) pred = resolve_crop_name None pred"
    by (simp add: resolve_crop_name_def encoder_step_def)
next
  fix enc :: "int \<Rightarrow> string + string" and code e
  assume "py_int pred = Inr code \<and> enc code = Inl e"
  then show "resolve_crop_name (Some enc) pred = resolve_crop_name None pred"
    by (simp add: resolve_crop_name_def encoder_step_def)
next
  assume "classified rt a form pred"
  then show "predict rt a form =
      format_result rt (tiered_resolution (label_encoder a) pred) pred"
    by (simp add: predict_classified resolve_tiered)
next
  fix enc :: "int \<Rightarrow> string + string"
  assume h: "classified rt a form pred \<and>
    ((\<exists>e. py_int pred = Inl e) \<or> (\<exists>code e. py_int pred = Inr code \<and> enc code = Inl e))"
  then have c: "classified rt (a\<lparr>label_encoder := le'\<rparr>) form pred" for le'
    by (auto simp: classified_def split: sum.splits)
  from h have "encoder_step (Some enc) pred = None"
    by (auto simp: encoder_step_def)
  then have "resolve_crop_name (Some enc) pred = resolve_crop_name None pred"
    by (rule resolve_without_encoder)
  then show "predict rt (a\<lparr>label_encoder := Some enc\<rparr>) form =
      predict rt (a\<lparr>label_encoder := None\<rparr>) form"
    using predict_classified [OF c [of "Some enc"]] predict_classified [OF c [of None]]
    by simp
qed

theorem label_resolution_tiers_witness:
  "crop_dict 1 = Some ''Rice'' \<and> demo_encoder 1 = Inr ''banana'' \<and>
   resolve_crop_name (Some demo_encoder) (PyInt 1) = Some ''banana'' \<and>
   resolve_crop_name (Some demo_encoder) (PyInt 7) = Some ''Orange'' \<and>
   resolve_crop_name (Some demo_encoder) (PyStr ''maize'') = Some ''maize'' \<and>
   resolve_crop_name (Some demo_encoder) (PyStr [CHR 0x1C, CHR ''2'']) =
     Some [CHR 0x1C, CHR ''2''] \<and>
   predict demo_rt (demo_artifacts (PyInt 1) (Some demo_encoder)) good_form =
     Rendered ''banana is the best crop to be cultivated right there.'' \<and>
   predict demo_rt (demo_artifacts (PyInt 7) (Some demo_encoder)) good_form =
     predict demo_rt (demo_artifacts (PyInt 7) None) good_form"
proof -
  note t = label_resolution_tiers [where rt = demo_rt and form = good_form]
  note t1 = t [where le = "Some demo_encoder" and pred = "PyInt 1"
      and a = "demo_artifacts (PyInt 1) (Some demo_encoder)"]
  note t7 = t [where le = "Some demo_encoder" and pred = "PyInt 7"
      and a = "demo_artifacts (PyInt 7) (Some demo_encoder)"]
  have d: "crop_dict 1 = Some ''Rice''" "crop_dict 7 = Some ''Orange''"
    by (simp_all add: crop_dict_def)
  have e: "demo_encoder 1 = Inr ''banana''"
    "demo_encoder 7 = Inl ''y contains previously unseen labels''"
    by (simp_all add: demo_encoder_def)
  have r1: "resolve_crop_name (Some demo_encoder) (PyInt 1) = Some ''banana''"
    using t1 e by auto
  have "resolve_crop_name (Some demo_encoder) (PyInt 7) = resolve_crop_name None (PyInt 7)"
    using t7 e by auto
  then have r7: "resolve_crop_name (Some demo_encoder) (PyInt 7) = Some ''Orange''"
    using d by (simp add: resolve_crop_name_def encoder_step_def string_step_def dict_step_def)
  have il: "int_literal ''maize'' = None" "int_literal [CHR 0x1C, CHR ''2''] = None"
    by (simp_all add: int_literal_def num_strip_def num_isspace_def drop_sign_def is_digit_def)
  then have "resolve_crop_name (Some demo_encoder) (PyStr ''maize'') =
      resolve_crop_name None (PyStr ''maize'')"
    using t [where le = "Some demo_encoder" and pred = "PyStr ''maize''"
        and a = "demo_artifacts (PyInt 1) None"]
    by auto
  then have rs: "resolve_crop_name (Some demo_encoder) (PyStr ''maize'') = Some ''maize''"
    by (simp add: resolve_crop_name_def encoder_step_def string_step_def dict_step_def)
  from il have "resolve_crop_name (Some demo_encoder) (PyStr [CHR 0x1C, CHR ''2'']) =
      resolve_crop_name None (PyStr [CHR 0x1C, CHR ''2''])"
    using t [where le = "Some demo_encoder" and pred = "PyStr [CHR 0x1C, CHR ''2'']"
        and a = "demo_artifacts (PyInt 1) None"]
    by auto
  then have rc: "resolve_crop_name (Some demo_encoder) (PyStr [CHR 0x1C, CHR ''2'']) =
      Some [CHR 0x1C, CHR ''2'']"
    by (simp add: resolve_crop_name_def encoder_step_def string_step_def dict_step_def)
  have c1: "classified demo_rt (demo_artifacts (PyInt 1) (Some demo_encoder)) good_form (PyInt 1)"
    by (rule good_form_classified)
  have "predict demo_rt (demo_artifacts (PyInt 1) (Some demo_encoder)) good_form =
      format_result demo_rt (tiered_resolution (Some demo_encoder) (PyInt 1)) (PyInt 1)"
    using t1 c1 by (auto simp: demo_artifacts_def)
  moreover have "tiered_resolution (Some demo_encoder) (PyInt 1) = Some ''banana''"
    using t1 r1 by auto
  ultimately have p1: "predict demo_rt (demo_artifacts (PyInt 1) (Some demo_encoder)) good_form =
      Rendered ''banana is the best crop to be cultivated right there.''"
    by (simp add: format_result_def)
  have c7: "classified demo_rt (demo_artifacts (PyInt 7) (Some demo_encoder)) good_form (PyInt 7)"
    by (rule good_form_classified)
  have u: "demo_artifacts (PyInt 7) (Some demo_encoder)\<lparr>label_encoder := le'\<rparr> =
      demo_artifacts (PyInt 7) le'" for le'
    by (simp add: demo_artifacts_def)
  have "predict demo_rt (demo_artifacts (PyInt 7) (Some demo_encoder)\<lparr>label_encoder := Some demo_encoder\<rparr>) good_form =
      predict demo_rt (demo_artifacts (PyInt 7) (Some demo_encoder)\<lparr>label_encoder := None\<rparr>) good_form"
    using t7 c7 e by auto
  then have p7: "predict demo_rt (demo_artifacts (PyInt 7) (Some demo_encoder)) good_form =
      predict demo_rt (demo_artifacts (PyInt 7) None) good_form"
    by (simp only: u)
  from d e r1 r7 rs rc p1 p7 show ?thesis by simp
qed

text \<open>
  C3. When the classifier or either scaler is not loaded, the handler returns the fixed
  configuration error message, whatever the submitted form is: no field is read.
\<close>

theorem unloaded_artifacts_config_error:
  assumes "model a = None \<or> sc a = None \<or> ms a = None"
  shows "predict rt a form =
    Rendered (''Server configuration error: model or scaler not loaded. '' @
      ''Ensure model.pkl, standscaler.pkl and minmaxscaler.pkl exist in the app folder.'')"
  using assms by (simp add: predict_def config_error_def)

theorem unloaded_artifacts_config_error_witness:
  "sc (demo_artifacts (PyInt 1) None\<lparr>sc := None\<rparr>) = None \<and>
   predict demo_rt (demo_artifacts (PyInt 1) None\<lparr>sc := None\<rparr>) good_form =
     Rendered ''Server configuration error: model or scaler not loaded. Ensure model.pkl, standscaler.pkl and minmaxscaler.pkl exist in the app folder.'' \<and>
   predict demo_rt (demo_artifacts (PyInt 1) None\<lparr>sc := None\<rparr>) (good_form(''Ph'' \<mapsto> ''abc'')) =
     predict demo_rt (demo_artifacts (PyInt 1) None\<lparr>sc := None\<rparr>) good_form"
proof -
  have h: "model (demo_artifacts (PyInt 1) None\<lparr>sc := None\<rparr>) = None \<or>
      sc (demo_artifacts (PyInt 1) None\<lparr>sc := None\<rparr>) = None \<or>
      ms (demo_artifacts (PyInt 1) None\<lparr>sc := None\<rparr>) = None"
    by simp
  from unloaded_artifacts_config_error [OF h, of demo_rt good_form]
    unloaded_artifacts_config_error [OF h, of demo_rt "good_form(''Ph'' \<mapsto> ''abc'')"]
  show ?thesis by simp
qed

text \<open>
  C4, as stated, fails: with all artifacts loaded and only Nitrogen blank, the result is
  \<open>Please provide a value for Nitrogen.\<close>, which ends in a full stop, and not the
  text without it. And with Nitrogen \<open>abc\<close> and Phosporus blank, Phosporus is the first
  blank field, yet the result is the invalid-value message for Nitrogen.
\<close>

theorem blank_nitrogen_message_has_full_stop:
  "predict demo_rt (demo_artifacts (PyInt 1) None) (good_form(''Nitrogen'' \<mapsto> '''')) =
     Rendered ''Please provide a value for Nitrogen.'' \<and>
   predict demo_rt (demo_artifacts (PyInt 1) None) (good_form(''Nitrogen'' \<mapsto> '''')) \<noteq>
     Rendered ''Please provide a value for Nitrogen'' \<and>
   predict demo_rt (demo_artifacts (PyInt 1) None)
       (good_form(''Nitrogen'' \<mapsto> ''abc'', ''Phosporus'' \<mapsto> '''')) =
     Rendered (''Invalid numeric value for Nitrogen: '' @ [CHR 0x27] @ ''abc'' @ [CHR 0x27]) \<and>
   predict demo_rt (demo_artifacts (PyInt 1) None)
       (good_form(''Nitrogen'' \<mapsto> ''abc'', ''Phosporus'' \<mapsto> '''')) \<noteq>
     Rendered ''Please provide a value for Phosporus.''"
  by (simp add: predict_def demo_artifacts_def fields_def missing_msg_def invalid_msg_def
        py_strip_def py_isspace_def py_float_def abc_not_float)

text \<open>
  C4, amended. With the classifier and both scalers loaded, when a field is missing or
  blank and every field before it in the order Nitrogen, Phosporus, Potassium,
  Temperature, Humidity, Ph, Rainfall is numeric, the result is exactly
  \<open>Please provide a value for <field>.\<close>, full stop included, and the fields after it
  are not evaluated: any submission that agrees up to that field gives the same result.
\<close>

theorem first_blank_field_message:
  assumes "model a \<noteq> None" and "sc a \<noteq> None" and "ms a \<noteq> None"
    and "fields = pre @ field # post"
    and "list_all (numeric form) pre"
    and "blank form field"
  shows "predict rt a form = Rendered (''Please provide a value for '' @ field @ ''.'') \<and>
    (\<forall>form'. (\<forall>g\<in>set (pre @ [field]). form' g = form g) \<longrightarrow>
       predict rt a form' = predict rt a form)"
proof -
  have first: "predict rt a f = Rendered (missing_msg field)"
    if "list_all (numeric f) pre" and "blank f field" for f
    using that assms(1-4) read_fields_first_blank [of f pre field rt post "[]"]
    by (simp add: predict_loaded)
  have "list_all (numeric form') pre \<and> blank form' field"
    if "\<forall>g\<in>set (pre @ [field]). form' g = form g" for form'
    using that assms(5,6) by (simp add: list_all_iff numeric_def blank_def)
  with first [OF assms(5,6)] first show ?thesis
    by (simp add: missing_msg_def)
qed

theorem first_blank_field_message_witness:
  "list_all (numeric (good_form(''Potassium'' \<mapsto> ''  ''))) [''Nitrogen'', ''Phosporus''] \<and>
   blank (good_form(''Potassium'' \<mapsto> ''  '')) ''Potassium'' \<and>
   predict demo_rt (demo_artifacts (PyInt 1) None) (good_form(''Potassium'' \<mapsto> ''  '')) =
     Rendered ''Please provide a value for Potassium.'' \<and>
   predict demo_rt (demo_artifacts (PyInt 1) None)
       (good_form(''Potassium'' \<mapsto> ''  '', ''Ph'' \<mapsto> ''abc'')) =
     predict demo_rt (demo_artifacts (PyInt 1) None) (good_form(''Potassium'' \<mapsto> ''  ''))"
proof -
  let ?f = "good_form(''Potassium'' \<mapsto> ''  '')"
  have s: "fields = [''Nitrogen'', ''Phosporus''] @ ''Potassium'' # [''Temperature'', ''Humidity'', ''Ph'', ''Rainfall'']"
    by (simp add: fields_def)
  have n: "list_all (numeric ?f) [''Nitrogen'', ''Phosporus'']"
    by (simp add: numeric_update good_form_numeric)
  have b: "blank ?f ''Potassium''"
    by (simp add: blank_def py_strip_def py_isspace_def)
  have "\<forall>g\<in>set ([''Nitrogen'', ''Phosporus''] @ [''Potassium'']). (?f(''Ph'' \<mapsto> ''abc'')) g = ?f g"
    by simp
  with first_blank_field_message [where form = ?f and rt = demo_rt and a = "demo_artifacts (PyInt 1) None",
      OF demo_loaded s n b] n b
  show ?thesis by simp
qed

text \<open>
  C5, as stated, fails. With all artifacts loaded, Nitrogen blank and Phosporus \<open>abc\<close>,
  the field Phosporus is present, not blank and not parseable, yet the result is the
  message for Nitrogen and not the invalid-value message for Phosporus. And with
  Nitrogen \<open>nan\<close>, which is present, not blank and not a real number, \<open>float()\<close>
  accepts the text and the handler goes on to the classifier: there is no invalid-value
  message.
\<close>

theorem unparseable_field_counterexample:
  "(good_form(''Nitrogen'' \<mapsto> '''', ''Phosporus'' \<mapsto> ''abc'')) ''Phosporus'' = Some ''abc'' \<and>
   py_strip ''abc'' \<noteq> '''' \<and> \<not> float_syntax ''abc'' \<and>
   predict demo_rt (demo_artifacts (PyInt 1) None)
       (good_form(''Nitrogen'' \<mapsto> '''', ''Phosporus'' \<mapsto> ''abc'')) =
     Rendered ''Please provide a value for Nitrogen.'' \<and>
   predict demo_rt (demo_artifacts (PyInt 1) None)
       (good_form(''Nitrogen'' \<mapsto> '''', ''Phosporus'' \<mapsto> ''abc'')) \<noteq>
     Rendered (''Invalid numeric value for Phosporus: '' @ [CHR 0x27] @ ''abc'' @ [CHR 0x27]) \<and>
   py_strip ''nan'' \<noteq> '''' \<and> float_syntax ''nan'' \<and>
   predict demo_rt (demo_artifacts (PyInt 1) None) (good_form(''Nitrogen'' \<mapsto> ''nan'')) =
     Rendered ''Rice is the best crop to be cultivated right there.'' \<and>
   predict demo_rt (demo_artifacts (PyInt 1) None) (good_form(''Nitrogen'' \<mapsto> ''nan'')) \<noteq>
     Rendered (''Invalid numeric value for Nitrogen: '' @ [CHR 0x27] @ ''nan'' @ [CHR 0x27])"
proof -
  let ?a = "demo_artifacts (PyInt 1) None"
  have b: "predict demo_rt ?a (good_form(''Nitrogen'' \<mapsto> '''', ''Phosporus'' \<mapsto> ''abc'')) =
      Rendered ''Please provide a value for Nitrogen.''"
    by (simp add: predict_def demo_artifacts_def fields_def missing_msg_def py_strip_def)
  have n: "py_strip ''nan'' \<noteq> ''''" "float_syntax ''nan''"
    by (simp_all add: float_syntax_def py_strip_def py_isspace_def num_strip_def num_isspace_def
        drop_sign_def py_lower_def)
  then have "list_all (numeric (good_form(''Nitrogen'' \<mapsto> ''nan''))) fields"
    by (simp add: fields_def numeric_update good_form_numeric) (simp add: numeric_def)
  then have "classified demo_rt ?a (good_form(''Nitrogen'' \<mapsto> ''nan'')) (PyInt 1)"
    by (simp add: classified_def demo_artifacts_def)
  from predict_classified [OF this]
  have r: "predict demo_rt ?a (good_form(''Nitrogen'' \<mapsto> ''nan'')) =
      Rendered ''Rice is the best crop to be cultivated right there.''"
    by (simp add: demo_artifacts_def resolve_crop_name_def encoder_step_def string_step_def
        dict_step_def crop_dict_def format_result_def)
  from b n r abc_not_float show ?thesis by simp
qed

text \<open>
  C5, amended. With the classifier and both scalers loaded, when a field is present, not
  blank, and \<open>float()\<close> rejects its text (as it does \<open>abc\<close>, and as it does not \<open>nan\<close>,
  \<open>inf\<close> or \<open>infinity\<close>), and every field before it in the fixed order is numeric, the
  result is exactly \<open>Invalid numeric value for <field>: '<raw text>'\<close>.
\<close>

theorem first_invalid_field_message:
  assumes "model a \<noteq> None" and "sc a \<noteq> None" and "ms a \<noteq> None"
    and "fields = pre @ field # post"
    and "list_all (numeric form) pre"
    and "form field = Some raw" and "py_strip raw \<noteq> ''''" and "\<not> float_syntax raw"
  shows "predict rt a form =
    Rendered (''Invalid numeric value for '' @ field @ '': '' @ [CHR 0x27] @ raw @ [CHR 0x27])"
  using assms read_fields_first_invalid [of form pre field raw rt post "[]"]
  by (simp add: predict_loaded invalid_msg_def)

theorem first_invalid_field_message_witness:
  "list_all (numeric (good_form(''Potassium'' \<mapsto> ''abc''))) [''Nitrogen'', ''Phosporus''] \<and>
   (good_form(''Potassium'' \<mapsto> ''abc'')) ''Potassium'' = Some ''abc'' \<and>
   py_strip ''abc'' \<noteq> '''' \<and> \<not> float_syntax ''abc'' \<and>
   predict demo_rt (demo_artifacts (PyInt 1) None) (good_form(''Potassium'' \<mapsto> ''abc'')) =
     Rendered (''Invalid numeric value for Potassium: '' @ [CHR 0x27] @ ''abc'' @ [CHR 0x27]) \<and>
   \<not> float_syntax [CHR 0x1C, CHR ''9'', CHR ''0''] \<and>
   predict demo_rt (demo_artifacts (PyInt 1) None)
       (good_form(''Nitrogen'' \<mapsto> [CHR 0x1C, CHR ''9'', CHR ''0''])) =
     Rendered (''Invalid numeric value for Nitrogen: '' @ [CHR 0x27] @
       [CHR 0x1C, CHR ''9'', CHR ''0''] @ [CHR 0x27])"
proof -
  let ?f = "good_form(''Potassium'' \<mapsto> ''abc'')"
  let ?g = "good_form(''Nitrogen'' \<mapsto> [CHR 0x1C, CHR ''9'', CHR ''0''])"
  have s: "fields = [''Nitrogen'', ''Phosporus''] @ ''Potassium'' # [''Temperature'', ''Humidity'', ''Ph'', ''Rainfall'']"
    by (simp add: fields_def)
  have n: "list_all (numeric ?f) [''Nitrogen'', ''Phosporus'']"
    by (simp add: numeric_update good_form_numeric)
  have v: "?f ''Potassium'' = Some ''abc''"
    by simp
  note b = abc_not_float(1) and u = abc_not_float(2)
  have p: "predict demo_rt (demo_artifacts (PyInt 1) None) ?f =
      Rendered (''Invalid numeric value for '' @ ''Potassium'' @ '': '' @ [CHR 0x27] @ ''abc'' @ [CHR 0x27])"
    by (rule first_invalid_field_message [where form = ?f and a = "demo_artifacts (PyInt 1) None",
        OF demo_loaded s n v b u])
  have s': "fields = [] @ ''Nitrogen'' # [''Phosporus'', ''Potassium'', ''Temperature'', ''Humidity'', ''Ph'', ''Rainfall'']"
    by (simp add: fields_def)
  have n': "list_all (numeric ?g) []"
    by simp
  have v': "?g ''Nitrogen'' = Some [CHR 0x1C, CHR ''9'', CHR ''0'']"
    by simp
  have b': "py_strip [CHR 0x1C, CHR ''9'', CHR ''0''] \<noteq> ''''"
    by (simp add: py_strip_def py_isspace_def)
  have u': "\<not> float_syntax [CHR 0x1C, CHR ''9'', CHR ''0'']"
    by (simp add: float_syntax_def num_strip_def num_isspace_def drop_sign_def number_ok_def
        is_digit_def py_lower_def)
  have q: "predict demo_rt (demo_artifacts (PyInt 1) None) ?g =
      Rendered (''Invalid numeric value for '' @ ''Nitrogen'' @ '': '' @ [CHR 0x27] @
        [CHR 0x1C, CHR ''9'', CHR ''0''] @ [CHR 0x27])"
    by (rule first_invalid_field_message [where form = ?g and a = "demo_artifacts (PyInt 1) None",
        OF demo_loaded s' n' v' b' u'])
  from n v b u p u' q show ?thesis by simp
qed

text \<open>
  C6, as stated, fails. With no label encoder loaded and the integer label
  \<open>10 ^ 4300\<close>, which is not a string and not a key of the table, the f-string of the
  last message raises \<open>ValueError\<close> (the integer has more than 4300 digits) outside any
  \<open>try\<close>: no message is returned.
\<close>

theorem huge_label_raises:
  "classified demo_rt (demo_artifacts (PyInt (10 ^ max_str_digits)) None) good_form
     (PyInt (10 ^ max_str_digits)) \<and>
   label_encoder (demo_artifacts (PyInt (10 ^ max_str_digits)) None) = None \<and>
   py_int (PyInt (10 ^ max_str_digits)) = Inr (10 ^ max_str_digits) \<and>
   crop_dict (10 ^ max_str_digits) = None \<and>
   predict demo_rt (demo_artifacts (PyInt (10 ^ max_str_digits)) None) good_form =
     Uncaught ValueError"
proof -
  let ?p = "PyInt (10 ^ max_str_digits)"
  have c: "classified demo_rt (demo_artifacts ?p None) good_form ?p"
    by (rule good_form_classified)
  have e: "label_encoder (demo_artifacts ?p None) = None"
    by (simp add: demo_artifacts_def)
  have d: "crop_dict (10 ^ max_str_digits) = None"
    using table_below_limit by (rule crop_dict_above)
  then have "resolve_crop_name None ?p = None"
    by (simp add: resolve_crop_name_def encoder_step_def string_step_def dict_step_def)
  with predict_classified [OF c] e
  have "predict demo_rt (demo_artifacts ?p None) good_form = unresolved_result demo_rt ?p"
    by (simp add: format_result_unnamed)
  then have "predict demo_rt (demo_artifacts ?p None) good_form = Uncaught ValueError"
    by (simp add: unresolved_result_def)
  with c e d show ?thesis by simp
qed

text \<open>
  C6, amended. For a valid submission (the handler reaches the label \<open>pred\<close>) with no label
  encoder loaded, a label that is not a string, and either no integer value of the label
  or one that is not a key of the static table, when \<open>str(pred)\<close> does not raise
  (\<open>pred\<close> is not an integer of more than 4300 digits) the result is
  \<open>Sorry, could not determine the best crop. Model output: <raw>\<close> with \<open>str(pred)\<close>
  embedded.
\<close>

theorem unresolved_label_message:
  assumes "classified rt a form pred"
    and "label_encoder a = None"
    and "\<forall>s. pred \<noteq> PyStr s"
    and "case py_int pred of Inl e \<Rightarrow> True | Inr code \<Rightarrow> crop_dict code = None"
    and "py_str rt pred = Inr text"
  shows "predict rt a form =
    Rendered (''Sorry, could not determine the best crop. Model output: '' @ text)"
proof -
  have "resolve_crop_name None pred = None"
    using assms(3,4)
    by (cases pred)
       (auto simp: resolve_crop_name_def encoder_step_def string_step_def dict_step_def
          split: sum.splits)
  then show ?thesis
    using predict_classified [OF assms(1)] assms(2,5)
    by (simp add: format_result_unnamed unresolved_result_text)
qed

theorem unresolved_label_message_witness:
  "classified demo_rt (demo_artifacts (PyInt 23) None) good_form (PyInt 23) \<and>
   py_int (PyInt 23) = Inr 23 \<and> crop_dict 23 = None \<and>
   py_str demo_rt (PyInt 23) = Inr ''23'' \<and>
   predict demo_rt (demo_artifacts (PyInt 23) None) good_form =
     Rendered ''Sorry, could not determine the best crop. Model output: 23''"
proof -
  have c: "classified demo_rt (demo_artifacts (PyInt 23) None) good_form (PyInt 23)"
    by (rule good_form_classified)
  have e: "label_encoder (demo_artifacts (PyInt 23) None) = None"
    by (simp add: demo_artifacts_def)
  have s: "\<forall>s. PyInt 23 \<noteq> PyStr s"
    by simp
  have d: "crop_dict 23 = None"
    by (simp add: crop_dict_def)
  then have t: "case py_int (PyInt 23) of Inl e \<Rightarrow> True | Inr code \<Rightarrow> crop_dict code = None"
    by simp
  have p: "py_str demo_rt (PyInt 23) = Inr ''23''"
    by (rule py_str_23)
  from unresolved_label_message [OF c e s t p] c d p show ?thesis
    by simp
qed

text \<open>
  C7, as stated, fails: the handler is not total over the loaded artifacts. When the
  classifier returns an empty array, \<open>pred = prediction[0]\<close>, which stands outside the
  \<open>try\<close>, raises \<open>IndexError\<close>; when it returns an object that cannot be indexed, it
  raises \<open>TypeError\<close>; and for the unresolved integer label \<open>10 ^ 4300\<close> the f-string of
  the last message raises \<open>ValueError\<close>.
\<close>

theorem uncaught_after_classification:
  "predict demo_rt (demo_artifacts (PyInt 1) None\<lparr>model := Some (\<lambda>row. Inr (Labels []))\<rparr>)
     good_form = Uncaught IndexError \<and>
   predict demo_rt (demo_artifacts (PyInt 1) None\<lparr>model := Some (\<lambda>row. Inr NotIndexable)\<rparr>)
     good_form = Uncaught TypeError \<and>
   predict demo_rt (demo_artifacts (PyInt (10 ^ max_str_digits)) None) good_form =
     Uncaught ValueError"
proof -
  have n: "list_all (numeric good_form) fields"
    by (simp add: fields_def good_form_numeric)
  have r: "read_fields demo_rt good_form fields [] = Inr (feature_values demo_rt good_form)"
    using read_fields_numeric [OF n, of demo_rt "[]"] by (simp add: feature_values_def)
  have 1: "predict demo_rt (demo_artifacts (PyInt 1) None\<lparr>model := Some (\<lambda>row. Inr (Labels []))\<rparr>)
      good_form = Uncaught IndexError"
    by (simp add: predict_def demo_artifacts_def r scale_features_def)
  have 2: "predict demo_rt (demo_artifacts (PyInt 1) None\<lparr>model := Some (\<lambda>row. Inr NotIndexable)\<rparr>)
      good_form = Uncaught TypeError"
    by (simp add: predict_def demo_artifacts_def r scale_features_def)
  let ?p = "PyInt (10 ^ max_str_digits)"
  have c: "classified demo_rt (demo_artifacts ?p None) good_form ?p"
    by (rule good_form_classified)
  have "crop_dict (10 ^ max_str_digits) = None"
    using table_below_limit by (rule crop_dict_above)
  then have "resolve_crop_name None ?p = None"
    by (simp add: resolve_crop_name_def encoder_step_def string_step_def dict_step_def)
  with predict_classified [OF c]
  have 3: "predict demo_rt (demo_artifacts ?p None) good_form = Uncaught ValueError"
    by (simp add: demo_artifacts_def format_result_unnamed unresolved_result_def)
  from 1 2 3 show ?thesis by simp
qed

text \<open>
  C7, amended. Provided that every prediction the classifier returns is a non-empty
  array of labels and \<open>str()\<close> of its first label does not raise (the label is not an
  integer of more than 4300 digits), for every runtime and every submission the handler
  ends in a rendered result, never in an exception that leaves it: the result is the
  configuration error, a missing-value or invalid-value message for one of the seven
  fields, a scaling error, a prediction error, the success message for a non-empty name,
  or the could-not-determine message.
\<close>

theorem handler_renders:
  assumes "\<forall>mdl row p. model a = Some mdl \<and> mdl row = Inr p \<longrightarrow>
    (\<exists>pred rest text. p = Labels (pred # rest) \<and> py_str rt pred = Inr text)"
  shows "\<exists>msg. predict rt a form = Rendered msg \<and>
     (msg = config_error \<or>
      (\<exists>field\<in>set fields. blank form field \<and> msg = missing_msg field) \<or>
      (\<exists>field\<in>set fields. \<exists>raw. form field = Some raw \<and> msg = invalid_msg field raw) \<or>
      (\<exists>e. msg = ''Error while scaling features: '' @ e) \<or>
      (\<exists>e. msg = ''Error during model prediction: '' @ e) \<or>
      (\<exists>name. name \<noteq> '''' \<and> msg = name @ '' is the best crop to be cultivated right there.'') \<or>
      (\<exists>pred text. py_str rt pred = Inr text \<and>
         msg = ''Sorry, could not determine the best crop. Model output: '' @ text))"
proof (cases "model a = None \<or> sc a = None \<or> ms a = None")
  case True
  then show ?thesis by (simp add: predict_def)
next
  case loaded: False
  then obtain mdl where mdl: "model a = Some mdl"
    by auto
  show ?thesis
  proof (cases "read_fields rt form fields []")
    case (Inl r)
    from loaded Inl have p: "predict rt a form = r"
      by (auto simp: predict_def)
    from read_fields_Inl [OF Inl] show ?thesis
    proof
      assume "\<exists>f\<in>set fields. blank form f \<and> r = Rendered (missing_msg f)"
      with p show ?thesis by blast
    next
      assume "\<exists>f\<in>set fields. \<exists>raw. form f = Some raw \<and> py_strip raw \<noteq> '''' \<and>
        \<not> float_syntax raw \<and> r = Rendered (invalid_msg f raw)"
      with p show ?thesis by blast
    qed
  next
    case read: (Inr vals)
    show ?thesis
    proof (cases "scale_features (the (ms a)) (the (sc a)) vals")
      case (Inl e)
      with loaded read show ?thesis by (auto simp: predict_def)
    next
      case scaled: (Inr final_features)
      show ?thesis
      proof (cases "mdl final_features")
        case (Inl e)
        with loaded mdl read scaled show ?thesis by (auto simp: predict_def)
      next
        case (Inr p)
        with assms mdl obtain pred rest label_text
          where lab: "p = Labels (pred # rest)" and str: "py_str rt pred = Inr label_text"
          by blast
        have "predict rt a form =
            format_result rt (resolve_crop_name (label_encoder a) pred) pred"
          using loaded mdl read scaled Inr lab by (auto simp: predict_def)
        moreover have "format_result rt (resolve_crop_name (label_encoder a) pred) pred =
            Rendered (''Sorry, could not determine the best crop. Model output: '' @ label_text) \<or>
          (\<exists>name. name \<noteq> '''' \<and>
            format_result rt (resolve_crop_name (label_encoder a) pred) pred =
              Rendered (name @ '' is the best crop to be cultivated right there.''))"
          using str by (auto simp: format_result_def unresolved_result_def split: option.splits)
        ultimately show ?thesis using str by auto
      qed
    qed
  qed
qed

theorem handler_renders_witness:
  "(\<exists>msg. predict demo_rt (demo_artifacts (PyInt 23) None) good_form = Rendered msg) \<and>
   (\<exists>msg. predict demo_rt (demo_artifacts (PyInt 23) None) (good_form(''Ph'' \<mapsto> ''abc'')) =
      Rendered msg)"
proof -
  have h: "\<forall>mdl row p. model (demo_artifacts (PyInt 23) None) = Some mdl \<and> mdl row = Inr p \<longrightarrow>
      (\<exists>pred rest text. p = Labels (pred # rest) \<and> py_str demo_rt pred = Inr text)"
    by (auto simp: demo_artifacts_def py_str_23 simp del: py_str.simps)
  from handler_renders [OF h, of good_form]
    handler_renders [OF h, of "good_form(''Ph'' \<mapsto> ''abc'')"]
  show ?thesis by blast
qed

text \<open>
  C8. With the runtime and the artifacts fixed, two submissions with the same values of
  the seven fields give the same result.
\<close>

theorem same_fields_same_result:
  assumes "\<forall>field\<in>set fields. form field = form' field"
  shows "predict rt a form = predict rt a form'"
  using read_fields_cong [OF assms, of rt "[]"] by (simp add: predict_def)

theorem same_fields_same_result_witness:
  "good_form ''Comment'' \<noteq> (good_form(''Comment'' \<mapsto> ''x'')) ''Comment'' \<and>
   predict demo_rt (demo_artifacts (PyInt 1) None) good_form =
   predict demo_rt (demo_artifacts (PyInt 1) None) (good_form(''Comment'' \<mapsto> ''x''))"
proof -
  have h: "\<forall>field\<in>set fields. good_form field = (good_form(''Comment'' \<mapsto> ''x'')) field"
    by (simp add: fields_def)
  have "predict demo_rt (demo_artifacts (PyInt 1) None) good_form =
      predict demo_rt (demo_artifacts (PyInt 1) None) (good_form(''Comment'' \<mapsto> ''x''))"
    by (rule same_fields_same_result
        [where form = good_form and form' = "good_form(''Comment'' \<mapsto> ''x'')", OF h])
  moreover have "good_form ''Comment'' \<noteq> (good_form(''Comment'' \<mapsto> ''x'')) ''Comment''"
    by (simp add: good_form_def)
  ultimately show ?thesis by (intro conjI)
qed

text \<open>
  C9, as stated, fails. With a label encoder that answers every code with the empty
  string and the integer label \<open>10 ^ 4300\<close>, the encoder step yields the empty name, the
  test \<open>if crop_name:\<close> fails, and the f-string of the failure message raises
  \<open>ValueError\<close> outside any \<open>try\<close>: the failure message is not returned.
\<close>

theorem empty_name_huge_label_raises:
  "classified demo_rt (demo_artifacts (PyInt (10 ^ max_str_digits)) (Some (\<lambda>code. Inr '''')))
     good_form (PyInt (10 ^ max_str_digits)) \<and>
   resolve_crop_name (Some (\<lambda>code. Inr '''')) (PyInt (10 ^ max_str_digits)) = Some '''' \<and>
   predict demo_rt (demo_artifacts (PyInt (10 ^ max_str_digits)) (Some (\<lambda>code. Inr '''')))
     good_form = Uncaught ValueError"
proof -
  let ?p = "PyInt (10 ^ max_str_digits)"
  let ?a = "demo_artifacts ?p (Some (\<lambda>code. Inr ''''))"
  have c: "classified demo_rt ?a good_form ?p"
    by (rule good_form_classified)
  have r: "resolve_crop_name (Some (\<lambda>code. Inr '''')) ?p = Some ''''"
    by (simp add: resolve_crop_name_def encoder_step_def string_step_def dict_step_def)
  have "label_encoder ?a = Some (\<lambda>code. Inr '''')"
    by (simp add: demo_artifacts_def)
  with predict_classified [OF c] r
  have "predict demo_rt ?a good_form = unresolved_result demo_rt ?p"
    by (simp add: format_result_unnamed)
  then have "predict demo_rt ?a good_form = Uncaught ValueError"
    by (simp add: unresolved_result_def)
  with c r show ?thesis by simp
qed

text \<open>
  C9, amended. The success message needs a non-empty name, not only a name: when label
  resolution yields the empty string (in particular when the label itself is the empty
  string, which the string step accepts) and \<open>str()\<close> of the label does not raise (the
  label is not an integer of more than 4300 digits), the result is
  \<open>Sorry, could not determine the best crop. Model output: <raw>\<close>.
\<close>

theorem empty_name_is_unresolved:
  assumes "classified rt a form pred"
    and "resolve_crop_name (label_encoder a) pred = Some '''' \<or> pred = PyStr ''''"
    and "py_str rt pred = Inr text"
  shows "predict rt a form =
    Rendered (''Sorry, could not determine the best crop. Model output: '' @ text)"
proof -
  from assms(2) have "resolve_crop_name (label_encoder a) pred = Some ''''"
    by (auto simp: resolve_empty_string)
  then show ?thesis
    using predict_classified [OF assms(1)] assms(3)
    by (simp add: format_result_unnamed unresolved_result_text)
qed

theorem empty_name_is_unresolved_witness:
  "classified demo_rt (demo_artifacts (PyStr '''') None) good_form (PyStr '''') \<and>
   resolve_crop_name None (PyStr '''') = Some '''' \<and>
   py_str demo_rt (PyStr '''') = Inr '''' \<and>
   predict demo_rt (demo_artifacts (PyStr '''') None) good_form =
     Rendered ''Sorry, could not determine the best crop. Model output: '' \<and>
   resolve_crop_name (Some (\<lambda>code. Inr '''')) (PyInt 3) = Some '''' \<and>
   predict demo_rt (demo_artifacts (PyInt 3) (Some (\<lambda>code. Inr ''''))) good_form =
     Rendered ''Sorry, could not determine the best crop. Model output: 3''"
proof -
  have c: "classified demo_rt (demo_artifacts (PyStr '''') None) good_form (PyStr '''')"
    by (rule good_form_classified)
  have r: "resolve_crop_name None (PyStr '''') = Some ''''"
    by (rule resolve_empty_string)
  have e: "label_encoder (demo_artifacts (PyStr '''') None) = None"
    by (simp add: demo_artifacts_def)
  from r e have h: "resolve_crop_name (label_encoder (demo_artifacts (PyStr '''') None)) (PyStr '''') = Some '''' \<or>
      PyStr '''' = PyStr ''''"
    by simp
  have s: "py_str demo_rt (PyStr '''') = Inr ''''"
    by simp
  have c3: "classified demo_rt (demo_artifacts (PyInt 3) (Some (\<lambda>code. Inr ''''))) good_form (PyInt 3)"
    by (rule good_form_classified)
  have r3: "resolve_crop_name (Some (\<lambda>code. Inr '''')) (PyInt 3) = Some ''''"
    by (simp add: resolve_crop_name_def encoder_step_def string_step_def dict_step_def)
  then have h3: "resolve_crop_name (label_encoder (demo_artifacts (PyInt 3) (Some (\<lambda>code. Inr ''''))))
      (PyInt 3) = Some '''' \<or> PyInt 3 = PyStr ''''"
    by (simp add: demo_artifacts_def)
  have s3: "py_str demo_rt (PyInt 3) = Inr ''3''"
    by (rule py_str_3)
  from empty_name_is_unresolved [OF c h s] empty_name_is_unresolved [OF c3 h3 s3] c r s r3
  show ?thesis by simp
qed

text \<open>
  C10. Both the encoder step and the table step look up \<open>int(pred)\<close>, and \<open>int()\<close> of a
  finite float rounds toward zero: for a float label the encoder is asked for the
  truncated code and the table is read at the truncated code, so the label resolves to
  the name of its truncated code (1.9 with no encoder gives \<open>Rice\<close>, the entry for 1).
  When \<open>int(pred)\<close> raises, the encoder is never applied: the encoder step yields no
  name, whatever the encoder is.
\<close>

theorem int_conversion_truncates:
  "py_int (PyFloat (Finite x)) = Inr (py_trunc x) \<and>
   \<bar>real_of_int (py_trunc x)\<bar> \<le> \<bar>x\<bar> \<and> \<bar>x - real_of_int (py_trunc x)\<bar> < 1 \<and>
   encoder_step (Some enc) (PyFloat (Finite x)) =
     (case enc (py_trunc x) of Inl e \<Rightarrow> None | Inr name \<Rightarrow> Some name) \<and>
   dict_step None (PyFloat (Finite x)) = crop_dict (py_trunc x) \<and>
   resolve_crop_name le (PyFloat (Finite x)) = resolve_crop_name le (PyInt (py_trunc x)) \<and>
   (classified rt a form (PyFloat (Finite x)) \<longrightarrow>
      predict rt a form =
        format_result rt (resolve_crop_name (label_encoder a) (PyInt (py_trunc x)))
          (PyFloat (Finite x))) \<and>
   (\<forall>(enc' :: int \<Rightarrow> string + string) e. py_int pred = Inl e \<longrightarrow>
      encoder_step (Some enc') pred = None \<and>
      resolve_crop_name (Some enc') pred = resolve_crop_name None pred)"
proof (intro conjI allI impI)
  show "py_int (PyFloat (Finite x)) = Inr (py_trunc x)"
    by simp
  show "\<bar>real_of_int (py_trunc x)\<bar> \<le> \<bar>x\<bar>" and "\<bar>x - real_of_int (py_trunc x)\<bar> < 1"
    using py_trunc_toward_zero [of x] by simp_all
  show "encoder_step (Some enc) (PyFloat (Finite x)) =
      (case enc (py_trunc x) of Inl e \<Rightarrow> None | Inr name \<Rightarrow> Some name)"
    by (simp add: encoder_step_def)
  show "dict_step None (PyFloat (Finite x)) = crop_dict (py_trunc x)"
    by (simp add: dict_step_def)
  show "resolve_crop_name le (PyFloat (Finite x)) = resolve_crop_name le (PyInt (py_trunc x))"
    by (rule resolve_float)
  show "predict rt a form =
      format_result rt (resolve_crop_name (label_encoder a) (PyInt (py_trunc x)))
        (PyFloat (Finite x))"
    if "classified rt a form (PyFloat (Finite x))"
    using predict_classified [OF that] by (simp add: resolve_float)
  fix enc' :: "int \<Rightarrow> string + string" and e
  assume "py_int pred = Inl e"
  then show "encoder_step (Some enc') pred = None"
    and "resolve_crop_name (Some enc') pred = resolve_crop_name None pred"
    by (simp_all add: resolve_crop_name_def encoder_step_def)
qed

theorem int_conversion_truncates_witness:
  "py_trunc (19 / 10) = 1 \<and> py_trunc (- 19 / 10) = - 1 \<and>
   resolve_crop_name None (PyFloat (Finite (19 / 10))) = Some ''Rice'' \<and>
   predict demo_rt (demo_artifacts (PyFloat (Finite (19 / 10))) None) good_form =
     Rendered ''Rice is the best crop to be cultivated right there.'' \<and>
   encoder_step (Some demo_encoder) (PyFloat (Finite (19 / 10))) = Some ''banana'' \<and>
   predict demo_rt (demo_artifacts (PyFloat (Finite (19 / 10))) (Some demo_encoder)) good_form =
     Rendered ''banana is the best crop to be cultivated right there.'' \<and>
   py_int (PyFloat NaN) = Inl ValueError \<and>
   encoder_step (Some demo_encoder) (PyFloat NaN) = None"
proof -
  let ?p = "PyFloat (Finite (19 / 10))"
  note t = int_conversion_truncates [where x = "19 / 10" and rt = demo_rt and form = good_form
      and pred = "PyFloat NaN" and enc = demo_encoder]
  note tn = t [where le = None and a = "demo_artifacts ?p None"]
  note te = t [where le = "Some demo_encoder" and a = "demo_artifacts ?p (Some demo_encoder)"]
  have tr: "py_trunc (19 / 10) = 1" "py_trunc (- 19 / 10) = - 1"
    by (simp_all add: py_trunc_def)
  have d: "crop_dict 1 = Some ''Rice''"
    by (simp add: crop_dict_def)
  have en: "demo_encoder 1 = Inr ''banana''"
    by (simp add: demo_encoder_def)
  have n: "py_int (PyFloat NaN) = Inl ValueError"
    by simp
  from tn have "resolve_crop_name None ?p = resolve_crop_name None (PyInt (py_trunc (19 / 10)))"
    by blast
  with tr d have r: "resolve_crop_name None ?p = Some ''Rice''"
    by (simp add: resolve_crop_name_def encoder_step_def string_step_def dict_step_def)
  have cn: "classified demo_rt (demo_artifacts ?p None) good_form ?p"
    by (rule good_form_classified)
  with tn have "predict demo_rt (demo_artifacts ?p None) good_form =
      format_result demo_rt
        (resolve_crop_name (label_encoder (demo_artifacts ?p None)) (PyInt (py_trunc (19 / 10)))) ?p"
    by blast
  with tr d have pn: "predict demo_rt (demo_artifacts ?p None) good_form =
      Rendered ''Rice is the best crop to be cultivated right there.''"
    by (simp add: demo_artifacts_def resolve_crop_name_def encoder_step_def string_step_def
        dict_step_def format_result_def)
  from te have "encoder_step (Some demo_encoder) ?p =
      (case demo_encoder (py_trunc (19 / 10)) of Inl e \<Rightarrow> None | Inr name \<Rightarrow> Some name)"
    by blast
  with tr en have es: "encoder_step (Some demo_encoder) ?p = Some ''banana''"
    by simp
  have ce: "classified demo_rt (demo_artifacts ?p (Some demo_encoder)) good_form ?p"
    by (rule good_form_classified)
  with te have "predict demo_rt (demo_artifacts ?p (Some demo_encoder)) good_form =
      format_result demo_rt
        (resolve_crop_name (label_encoder (demo_artifacts ?p (Some demo_encoder)))
          (PyInt (py_trunc (19 / 10)))) ?p"
    by blast
  with tr en have pe: "predict demo_rt (demo_artifacts ?p (Some demo_encoder)) good_form =
      Rendered ''banana is the best crop to be cultivated right there.''"
    by (simp add: demo_artifacts_def resolve_crop_name_def encoder_step_def string_step_def
        dict_step_def format_result_def)
  from tn n have s: "encoder_step (Some demo_encoder) (PyFloat NaN) = None"
    by blast
  from tr r pn es pe n s show ?thesis by simp
qed

end
